theory Spec2Isabelle
  imports Main "HOL-Library.Word"
begin

unbundle bit_operations_syntax

section \<open>JavaScript values\<close>

text \<open>
  The service is a Node.js program (\<^verbatim>\<open>src/server.js\<close>).  A JavaScript string is
  modelled as a \<^typ>\<open>string\<close>, that is, as a sequence of code units below 256; a value
  that is either a string or \<^verbatim>\<open>undefined\<close> (a request header, an environment
  variable, the result of \<^verbatim>\<open>JSON.stringify\<close>) is a \<^typ>\<open>string option\<close>.
  A number is modelled where it is integral and printed in plain decimal notation.
\<close>

datatype jsval =
    JUndefined
  | JNull
  | JBool bool
  | JNum int
  | JStr string
  | JArr "jsval list"
  | JObj "(string \<times> jsval) list"

datatype error = TypeError | RangeError | RequestFailed

type_synonym u8 = "8 word"
type_synonym u32 = "32 word"

fun truthy :: "string option \<Rightarrow> bool" where
  "truthy None = False"
| "truthy (Some s) = (s \<noteq> [])"

fun js_string :: "string option \<Rightarrow> string" where
  \<comment> \<open>the string that \<^verbatim>\<open>+\<close> concatenates for a string or \<^verbatim>\<open>undefined\<close>\<close>
  "js_string None = ''undefined''"
| "js_string (Some s) = s"

fun nullish :: "jsval \<Rightarrow> bool" where
  "nullish JUndefined = True"
| "nullish JNull = True"
| "nullish _ = False"

fun js_get :: "jsval \<Rightarrow> string \<Rightarrow> error + jsval" where
  \<comment> \<open>\<^verbatim>\<open>v.k\<close> for the names the handler reads (type, id, data, object, userId,
      direction), none of which a built-in prototype defines\<close>
  "js_get JUndefined k = Inl TypeError"
| "js_get JNull k = Inl TypeError"
| "js_get (JObj ps) k = Inr (case map_of ps k of None \<Rightarrow> JUndefined | Some v \<Rightarrow> v)"
| "js_get _ k = Inr JUndefined"

fun js_get_opt :: "jsval \<Rightarrow> string \<Rightarrow> jsval" where
  \<comment> \<open>\<^verbatim>\<open>v?.k\<close>\<close>
  "js_get_opt (JObj ps) k = (case map_of ps k of None \<Rightarrow> JUndefined | Some v \<Rightarrow> v)"
| "js_get_opt _ k = JUndefined"

fun intercalate :: "'a list \<Rightarrow> 'a list list \<Rightarrow> 'a list" where
  "intercalate sep [] = []"
| "intercalate sep [x] = x"
| "intercalate sep (x # y # ys) = x @ sep @ intercalate sep (y # ys)"

definition digit_char :: "nat \<Rightarrow> char" where
  "digit_char d = char_of (48 + d)"

function show_digits :: "int \<Rightarrow> string" where
  "show_digits n =
     (if n < 10 then [digit_char (nat n)]
      else show_digits (n div 10) @ [digit_char (nat (n mod 10))])"
  by pat_completeness auto
termination
  by (relation "measure nat") auto

declare show_digits.simps [simp del]

definition show_int :: "int \<Rightarrow> string" where
  "show_int i = (if i < 0 then CHR ''-'' # show_digits (- i) else show_digits i)"

fun js_to_string :: "jsval \<Rightarrow> error + string"
  and js_join :: "jsval list \<Rightarrow> error + string list"
where
  \<comment> \<open>ToString, as a property key or a template literal applies it.  An array joins its
      elements; an object is printed by \<^verbatim>\<open>Object.prototype.toString\<close>, unless it has an
      own property \<^verbatim>\<open>toString\<close>, which in a parsed body is never a function: then the
      conversion throws\<close>
  "js_to_string JUndefined = Inr ''undefined''"
| "js_to_string JNull = Inr ''null''"
| "js_to_string (JBool b) = Inr (if b then ''true'' else ''false'')"
| "js_to_string (JNum i) = Inr (show_int i)"
| "js_to_string (JStr s) = Inr s"
| "js_to_string (JArr xs) =
     (case js_join xs of Inl err \<Rightarrow> Inl err | Inr ss \<Rightarrow> Inr (intercalate '','' ss))"
| "js_to_string (JObj ps) =
     (if ''toString'' \<in> fst ` set ps then Inl TypeError else Inr ''[object Object]'')"
| "js_join [] = Inr []"
| "js_join (x # xs) =
     (case (if nullish x then Inr [] else js_to_string x) of
        Inl err \<Rightarrow> Inl err
      | Inr s \<Rightarrow> (case js_join xs of Inl err \<Rightarrow> Inl err | Inr ss \<Rightarrow> Inr (s # ss)))"

subsection \<open>\<^verbatim>\<open>JSON.stringify\<close>\<close>

definition hex_digit :: "nat \<Rightarrow> char" where
  "hex_digit d = (if d < 10 then char_of (48 + d) else char_of (87 + d))"

definition quote_char :: "char \<Rightarrow> string" where
  "quote_char c =
     (if c = CHR 0x22 then [CHR 0x5C, CHR 0x22]
      else if c = CHR 0x5C then [CHR 0x5C, CHR 0x5C]
      else if c = CHR 0x08 then [CHR 0x5C, CHR ''b'']
      else if c = CHR 0x09 then [CHR 0x5C, CHR ''t'']
      else if c = CHR 0x0A then [CHR 0x5C, CHR ''n'']
      else if c = CHR 0x0C then [CHR 0x5C, CHR ''f'']
      else if c = CHR 0x0D then [CHR 0x5C, CHR ''r'']
      else if (of_char c :: nat) < 32
        then [CHR 0x5C, CHR ''u'', CHR ''0'', CHR ''0'',
              hex_digit (of_char c div 16), hex_digit (of_char c mod 16)]
      else [c])"

definition quote :: "string \<Rightarrow> string" where
  "quote s = [CHR 0x22] @ concat (map quote_char s) @ [CHR 0x22]"

fun JSON_stringify :: "jsval \<Rightarrow> string option" where
  "JSON_stringify JUndefined = None"
| "JSON_stringify JNull = Some ''null''"
| "JSON_stringify (JBool b) = Some (if b then ''true'' else ''false'')"
| "JSON_stringify (JNum i) = Some (show_int i)"
| "JSON_stringify (JStr s) = Some (quote s)"
| "JSON_stringify (JArr xs) =
     Some (''['' @ intercalate '',''
        (map (\<lambda>x. case JSON_stringify x of None \<Rightarrow> ''null'' | Some t \<Rightarrow> t) xs) @ '']'')"
| "JSON_stringify (JObj ps) =
     Some (''{'' @ intercalate '',''
        (concat (map (\<lambda>p. case JSON_stringify (snd p) of
                              None \<Rightarrow> []
                            | Some t \<Rightarrow> [quote (fst p) @ '':'' @ t]) ps)) @ ''}'')"

subsection \<open>\<^verbatim>\<open>JSON.parse\<close> and the body parser\<close>

text \<open>
  The handler receives \<^verbatim>\<open>req.body\<close> from \<^verbatim>\<open>express.json()\<close>, which parses the text
  of the request body.  The parser below covers objects, arrays, strings with their
  escapes (a \<^verbatim>\<open>\u\<close> escape up to 00FF), the three literals and integer numbers; it
  returns \<open>None\<close> on a syntax error and on a text outside this fragment.  Its first
  argument bounds the number of values it reads, nested or in sequence; the length of
  the text plus one is given.
\<close>

definition is_ws :: "char \<Rightarrow> bool" where
  "is_ws c = (c = CHR 0x20 \<or> c = CHR 0x09 \<or> c = CHR 0x0A \<or> c = CHR 0x0D)"

definition skip_ws :: "string \<Rightarrow> string" where
  "skip_ws cs = dropWhile is_ws cs"

definition digit_val :: "char \<Rightarrow> nat option" where
  "digit_val c = (let n = (of_char c :: nat) in if 48 \<le> n \<and> n \<le> 57 then Some (n - 48) else None)"

definition hex_val :: "char \<Rightarrow> nat option" where
  "hex_val c =
     (let n = (of_char c :: nat) in
      if 48 \<le> n \<and> n \<le> 57 then Some (n - 48)
      else if 97 \<le> n \<and> n \<le> 102 then Some (n - 87)
      else if 65 \<le> n \<and> n \<le> 70 then Some (n - 55)
      else None)"

fun parse_string :: "string \<Rightarrow> string \<Rightarrow> (string \<times> string) option" where
  \<comment> \<open>the characters after an opening quote, up to the closing one\<close>
  "parse_string acc [] = None"
| "parse_string acc (c # cs) =
     (if c = CHR 0x22 then Some (acc, cs)
      else if (of_char c :: nat) < 32 then None
      else if c = CHR 0x5C then
        (case cs of
           [] \<Rightarrow> None
         | e # r \<Rightarrow>
             if e = CHR 0x22 \<or> e = CHR 0x5C \<or> e = CHR ''/'' then parse_string (acc @ [e]) r
             else if e = CHR ''b'' then parse_string (acc @ [CHR 0x08]) r
             else if e = CHR ''f'' then parse_string (acc @ [CHR 0x0C]) r
             else if e = CHR ''n'' then parse_string (acc @ [CHR 0x0A]) r
             else if e = CHR ''r'' then parse_string (acc @ [CHR 0x0D]) r
             else if e = CHR ''t'' then parse_string (acc @ [CHR 0x09]) r
             else if e = CHR ''u'' then
               (case r of
                  a # b # c # d # r' \<Rightarrow>
                    (case (hex_val a, hex_val b, hex_val c, hex_val d) of
                       (Some 0, Some 0, Some h, Some l) \<Rightarrow>
                         parse_string (acc @ [char_of (16 * h + l)]) r'
                     | _ \<Rightarrow> None)
                | _ \<Rightarrow> None)
             else None)
      else parse_string (acc @ [c]) cs)"

fun parse_digits :: "int \<Rightarrow> string \<Rightarrow> int \<times> string" where
  "parse_digits acc [] = (acc, [])"
| "parse_digits acc (c # cs) =
     (case digit_val c of None \<Rightarrow> (acc, c # cs) | Some d \<Rightarrow> parse_digits (10 * acc + int d) cs)"

definition parse_number :: "string \<Rightarrow> (int \<times> string) option" where
  \<comment> \<open>integer literals of magnitude at most \<open>2 ^ 53\<close>; a fraction or an exponent is
      outside the modelled numbers\<close>
  "parse_number cs =
     (let (neg, ds) = (case cs of c # r \<Rightarrow> if c = CHR ''-'' then (True, r) else (False, cs)
                                | [] \<Rightarrow> (False, cs))
      in case ds of
           [] \<Rightarrow> None
         | d # r \<Rightarrow>
             if digit_val d = None then None
             else if d = CHR ''0'' \<and> (case r of [] \<Rightarrow> False | x # _ \<Rightarrow> digit_val x \<noteq> None) then None
             else
               let (n, rest) = parse_digits 0 ds in
               if (case rest of [] \<Rightarrow> False
                   | x # _ \<Rightarrow> x = CHR ''.'' \<or> x = CHR ''e'' \<or> x = CHR ''E'') \<or> n > 2 ^ 53
               then None
               else Some (if neg then - n else n, rest))"

fun strip_prefix :: "string \<Rightarrow> string \<Rightarrow> string option" where
  "strip_prefix [] cs = Some cs"
| "strip_prefix (p # ps) [] = None"
| "strip_prefix (p # ps) (c # cs) = (if p = c then strip_prefix ps cs else None)"

definition is_index :: "string \<Rightarrow> bool" where
  \<comment> \<open>a canonical array index, which an object enumerates before its other keys\<close>
  "is_index k =
     (k \<noteq> [] \<and> (\<forall>c \<in> set k. digit_val c \<noteq> None) \<and> (k = ''0'' \<or> hd k \<noteq> CHR ''0'') \<and>
      fst (parse_digits 0 k) < 2 ^ 32 - 1)"

fun put_member :: "(string \<times> jsval) list \<Rightarrow> string \<Rightarrow> jsval \<Rightarrow> (string \<times> jsval) list" where
  "put_member [] k v = [(k, v)]"
| "put_member ((k', v') # ps) k v =
     (if k' = k then (k', v) # ps else (k', v') # put_member ps k v)"

fun insert_index :: "string \<times> jsval \<Rightarrow> (string \<times> jsval) list \<Rightarrow> (string \<times> jsval) list" where
  "insert_index p [] = [p]"
| "insert_index p (q # qs) =
     (if fst (parse_digits 0 (fst p)) \<le> fst (parse_digits 0 (fst q)) then p # q # qs
      else q # insert_index p qs)"

definition js_object :: "(string \<times> jsval) list \<Rightarrow> jsval" where
  \<comment> \<open>the object a list of members in source order creates: a repeated key keeps its
      place and takes the last value; index keys are enumerated first, in ascending order\<close>
  "js_object members =
     (let ps = foldl (\<lambda>acc (k, v). put_member acc k v) [] members
      in JObj (foldr insert_index (filter (\<lambda>p. is_index (fst p)) ps) []
               @ filter (\<lambda>p. \<not> is_index (fst p)) ps))"

fun parse_value :: "nat \<Rightarrow> string \<Rightarrow> (jsval \<times> string) option"
  and parse_elements :: "nat \<Rightarrow> jsval list \<Rightarrow> string \<Rightarrow> (jsval \<times> string) option"
  and parse_members :: "nat \<Rightarrow> (string \<times> jsval) list \<Rightarrow> string \<Rightarrow> (jsval \<times> string) option"
where
  "parse_value 0 cs = None"
| "parse_value (Suc n) cs =
     (case skip_ws cs of
        [] \<Rightarrow> None
      | c # r \<Rightarrow>
          if c = CHR ''{'' then
            (case skip_ws r of
               [] \<Rightarrow> None
             | x # r' \<Rightarrow> if x = CHR ''}'' then Some (JObj [], r') else parse_members n [] r)
          else if c = CHR ''['' then
            (case skip_ws r of
               [] \<Rightarrow> None
             | x # r' \<Rightarrow> if x = CHR '']'' then Some (JArr [], r') else parse_elements n [] r)
          else if c = CHR 0x22 then
            map_option (\<lambda>(s, r'). (JStr s, r')) (parse_string [] r)
          else if c = CHR ''t'' then map_option (Pair (JBool True)) (strip_prefix ''rue'' r)
          else if c = CHR ''f'' then map_option (Pair (JBool False)) (strip_prefix ''alse'' r)
          else if c = CHR ''n'' then map_option (Pair JNull) (strip_prefix ''ull'' r)
          else map_option (\<lambda>(i, r'). (JNum i, r')) (parse_number (c # r)))"
| "parse_elements 0 acc cs = None"
| "parse_elements (Suc n) acc cs =
     (case parse_value n cs of
        None \<Rightarrow> None
      | Some (v, r) \<Rightarrow>
          (case skip_ws r of
             [] \<Rightarrow> None
           | x # r' \<Rightarrow>
               if x = CHR '','' then parse_elements n (acc @ [v]) r'
               else if x = CHR '']'' then Some (JArr (acc @ [v]), r')
               else None))"
| "parse_members 0 acc cs = None"
| "parse_members (Suc n) acc cs =
     (case skip_ws cs of
        [] \<Rightarrow> None
      | q # r \<Rightarrow>
          if q \<noteq> CHR 0x22 then None
          else
            (case parse_string [] r of
               None \<Rightarrow> None
             | Some (k, r1) \<Rightarrow>
                 (case skip_ws r1 of
                    [] \<Rightarrow> None
                  | colon # r2 \<Rightarrow>
                      if colon \<noteq> CHR '':'' then None
                      else
                        (case parse_value n r2 of
                           None \<Rightarrow> None
                         | Some (v, r3) \<Rightarrow>
                             (case skip_ws r3 of
                                [] \<Rightarrow> None
                              | x # r4 \<Rightarrow>
                                  if x = CHR '','' then parse_members n (acc @ [(k, v)]) r4
                                  else if x = CHR ''}'' then Some (js_object (acc @ [(k, v)]), r4)
                                  else None)))))"

definition JSON_parse :: "string \<Rightarrow> jsval option" where
  "JSON_parse text =
     (case parse_value (Suc (length text)) text of
        None \<Rightarrow> None
      | Some (v, rest) \<Rightarrow> if skip_ws rest = [] then Some v else None)"

definition express_json :: "string \<Rightarrow> jsval option" where
  \<comment> \<open>\<^verbatim>\<open>app.use(express.json())\<close> on a request with a JSON content type and a body that
      is not empty: strict mode accepts a text whose first character after white space
      opens an object or an array\<close>
  "express_json raw =
     (case skip_ws raw of
        [] \<Rightarrow> None
      | c # _ \<Rightarrow> if c = CHR ''{'' \<or> c = CHR ''['' then JSON_parse raw else None)"

section \<open>The Node.js runtime functions the verifier calls\<close>

subsection \<open>Buffers and base64\<close>

definition utf8_char :: "char \<Rightarrow> u8 list" where
  "utf8_char c =
     (let n = (of_char c :: nat) in
      if n < 128 then [word_of_nat n]
      else [word_of_nat (192 + n div 64), word_of_nat (128 + n mod 64)])"

definition utf8 :: "string \<Rightarrow> u8 list" where
  \<comment> \<open>\<^verbatim>\<open>Buffer.from(s)\<close> and \<^verbatim>\<open>update(s, 'utf8')\<close>\<close>
  "utf8 s = concat (map utf8_char s)"

definition base64_alphabet :: string where
  "base64_alphabet = ''ABCDEFGHIJKLMNOPQRSTUVWXYZabcdefghijklmnopqrstuvwxyz0123456789+/''"

definition b64_char :: "nat \<Rightarrow> char" where
  "b64_char i = base64_alphabet ! i"

fun base64_encode :: "u8 list \<Rightarrow> string" where
  "base64_encode [] = []"
| "base64_encode [a] =
     [b64_char (unat a div 4), b64_char (unat a mod 4 * 16), CHR ''='', CHR ''='']"
| "base64_encode [a, b] =
     [b64_char (unat a div 4), b64_char (unat a mod 4 * 16 + unat b div 16),
      b64_char (unat b mod 16 * 4), CHR ''='']"
| "base64_encode (a # b # c # bs) =
     [b64_char (unat a div 4), b64_char (unat a mod 4 * 16 + unat b div 16),
      b64_char (unat b mod 16 * 4 + unat c div 64), b64_char (unat c mod 64)]
     @ base64_encode bs"

fun index_of :: "'a \<Rightarrow> 'a list \<Rightarrow> nat option" where
  "index_of x [] = None"
| "index_of x (y # ys) = (if x = y then Some 0 else map_option Suc (index_of x ys))"

definition unbase64 :: "char \<Rightarrow> nat option" where
  \<comment> \<open>the value of a base64 digit; the URL-safe digits are accepted as well\<close>
  "unbase64 c =
     (if c = CHR ''-'' then Some 62 else if c = CHR ''_'' then Some 63
      else index_of c base64_alphabet)"

fun b64_digits :: "string \<Rightarrow> nat list" where
  \<comment> \<open>decoding stops at the first \<^verbatim>\<open>=\<close> and skips every other character that is
      not a base64 digit\<close>
  "b64_digits [] = []"
| "b64_digits (c # cs) =
     (if c = CHR ''='' then []
      else case unbase64 c of None \<Rightarrow> b64_digits cs | Some d \<Rightarrow> d # b64_digits cs)"

fun b64_bytes :: "nat list \<Rightarrow> u8 list" where
  "b64_bytes (a # b # c # d # ds) =
     [word_of_nat (a * 4 + b div 16), word_of_nat (b mod 16 * 16 + c div 4),
      word_of_nat (c mod 4 * 64 + d)] @ b64_bytes ds"
| "b64_bytes [a, b, c] =
     [word_of_nat (a * 4 + b div 16), word_of_nat (b mod 16 * 16 + c div 4)]"
| "b64_bytes [a, b] = [word_of_nat (a * 4 + b div 16)]"
| "b64_bytes _ = []"

definition base64_decode :: "string \<Rightarrow> u8 list" where
  \<comment> \<open>\<^verbatim>\<open>Buffer.from(s, 'base64')\<close>\<close>
  "base64_decode s = b64_bytes (b64_digits s)"

fun split_on :: "char \<Rightarrow> string \<Rightarrow> string list" where
  \<comment> \<open>\<^verbatim>\<open>s.split(c)\<close> for a one-character separator\<close>
  "split_on sep [] = [[]]"
| "split_on sep (c # cs) =
     (if c = sep then [] # split_on sep cs
      else case split_on sep cs of
             [] \<Rightarrow> [[c]]
           | f # fs \<Rightarrow> (c # f) # fs)"

definition timingSafeEqual :: "u8 list \<Rightarrow> u8 list \<Rightarrow> error + bool" where
  \<comment> \<open>\<^verbatim>\<open>crypto.timingSafeEqual\<close> throws a RangeError when the byte lengths differ\<close>
  "timingSafeEqual a b = (if length a \<noteq> length b then Inl RangeError else Inr (a = b))"

subsection \<open>SHA-256 and HMAC\<close>

text \<open>
  The constants of SHA-256 are the first 32 bits of the fractional parts of the cube
  roots of the first 64 primes, and, for the initial hash value, of the square roots of
  the first 8 primes.
\<close>

definition K256 :: "u32 list" where
  "K256 =
    [1116352408, 1899447441, 3049323471, 3921009573, 961987163,
     1508970993, 2453635748, 2870763221, 3624381080, 310598401,
     607225278, 1426881987, 1925078388, 2162078206, 2614888103,
     3248222580, 3835390401, 4022224774, 264347078, 604807628,
     770255983, 1249150122, 1555081692, 1996064986, 2554220882,
     2821834349, 2952996808, 3210313671, 3336571891, 3584528711,
     113926993, 338241895, 666307205, 773529912, 1294757372,
     1396182291, 1695183700, 1986661051, 2177026350, 2456956037,
     2730485921, 2820302411, 3259730800, 3345764771, 3516065817,
     3600352804, 4094571909, 275423344, 430227734, 506948616,
     659060556, 883997877, 958139571, 1322822218, 1537002063,
     1747873779, 1955562222, 2024104815, 2227730452, 2361852424,
     2428436474, 2756734187, 3204031479, 3329325298]"

definition H256 :: "u32 list" where
  "H256 =
    [1779033703, 3144134277, 1013904242, 2773480762,
     1359893119, 2600822924, 528734635, 1541459225]"

definition be_bytes :: "nat \<Rightarrow> int \<Rightarrow> u8 list" where
  \<comment> \<open>the low \<open>n\<close> bytes of \<open>x\<close>, most significant first\<close>
  "be_bytes n x = map (\<lambda>i. word_of_int (drop_bit (8 * (n - 1 - i)) x)) [0..<n]"

definition sha_pad :: "u8 list \<Rightarrow> u8 list" where
  "sha_pad m =
     m @ [0x80] @ replicate ((119 - length m mod 64) mod 64) 0
       @ be_bytes 8 (8 * int (length m))"

definition be_word :: "u8 list \<Rightarrow> u32" where
  "be_word bs = foldl (\<lambda>acc b. push_bit 8 acc OR ucast b) 0 bs"

fun chunks :: "nat \<Rightarrow> 'a list \<Rightarrow> 'a list list" where
  \<comment> \<open>\<open>chunks n\<close> cuts a list into pieces of \<open>n + 1\<close> elements\<close>
  "chunks n [] = []"
| "chunks n (x # xs) = take (Suc n) (x # xs) # chunks n (drop n xs)"

definition ssig0 :: "u32 \<Rightarrow> u32" where
  "ssig0 x = word_rotr 7 x XOR word_rotr 18 x XOR drop_bit 3 x"

definition ssig1 :: "u32 \<Rightarrow> u32" where
  "ssig1 x = word_rotr 17 x XOR word_rotr 19 x XOR drop_bit 10 x"

definition bsig0 :: "u32 \<Rightarrow> u32" where
  "bsig0 x = word_rotr 2 x XOR word_rotr 13 x XOR word_rotr 22 x"

definition bsig1 :: "u32 \<Rightarrow> u32" where
  "bsig1 x = word_rotr 6 x XOR word_rotr 11 x XOR word_rotr 25 x"

fun schedule :: "nat \<Rightarrow> u32 list \<Rightarrow> u32 list" where
  "schedule 0 w = w"
| "schedule (Suc n) w =
     (let t = length w in
      schedule n (w @ [ssig1 (w ! (t - 2)) + w ! (t - 7) + ssig0 (w ! (t - 15)) + w ! (t - 16)]))"

fun round256 :: "u32 list \<Rightarrow> u32 \<times> u32 \<Rightarrow> u32 list" where
  "round256 [a, b, c, d, e, f, g, h] (k, w) =
     (let t1 = h + bsig1 e + ((e AND f) XOR (NOT e AND g)) + k + w;
          t2 = bsig0 a + ((a AND b) XOR (a AND c) XOR (b AND c))
      in [t1 + t2, a, b, c, d + t1, e, f, g])"
| "round256 s _ = s"

definition compress :: "u32 list \<Rightarrow> u8 list \<Rightarrow> u32 list" where
  "compress h blk =
     map2 (+) h (foldl round256 h (zip K256 (schedule 48 (map be_word (chunks 3 blk)))))"

definition sha256 :: "u8 list \<Rightarrow> u8 list" where
  "sha256 m =
     concat (map (\<lambda>w. be_bytes 4 (uint w)) (foldl compress H256 (chunks 63 (sha_pad m))))"

definition hmac_sha256 :: "u8 list \<Rightarrow> u8 list \<Rightarrow> u8 list" where
  "hmac_sha256 key msg =
     (let k0 = (if length key > 64 then sha256 key else key);
          k = k0 @ replicate (64 - length k0) 0
      in sha256 (map (\<lambda>b. b XOR 0x5c) k @ sha256 (map (\<lambda>b. b XOR 0x36) k @ msg)))"

section \<open>The signature verifier\<close>

definition computeDigest :: "string \<Rightarrow> string \<Rightarrow> string" where
  \<comment> \<open>server.js, lines 103 to 109: the HMAC-SHA256 of the signed data under the
      base64-decoded secret, as base64\<close>
  "computeDigest secret signedData =
     base64_encode (hmac_sha256 (base64_decode secret) (utf8 signedData))"

definition verifyOpenPhoneSignature ::
  "string option \<Rightarrow> string option \<Rightarrow> string option \<Rightarrow> error + bool" where
  "verifyOpenPhoneSignature payload signature secret =
     (case (signature, secret) of
        (Some sig, Some sec) \<Rightarrow>
          if \<not> truthy (Some sig) \<or> \<not> truthy (Some sec) then Inr True
          else
            let fields = split_on CHR '';'' sig in
            if length fields < 4 then Inr False
            else
              let timestamp = fields ! 2;
                  providedDigest = fields ! 3;
                  signedData = timestamp @ ''.'' @ js_string payload;
                  computedDigest = computeDigest sec signedData
              in timingSafeEqual (utf8 providedDigest) (utf8 computedDigest)
      | _ \<Rightarrow> Inr True)"

section \<open>The call tracker and the identity mapping\<close>

record call_record =
  userId :: jsval
  startTime :: int
  direction :: jsval

text \<open>
  \<^verbatim>\<open>activeCalls\<close> is a JavaScript \<^verbatim>\<open>Map\<close>: entries in insertion order, keys compared
  by SameValueZero.  Its keys are read from parsed request bodies, so a key that is an
  array or an object is a fresh object and equals no key stored before.
\<close>

type_synonym tracker = "(jsval \<times> call_record) list"

fun primitive :: "jsval \<Rightarrow> bool" where
  "primitive (JArr xs) = False"
| "primitive (JObj ps) = False"
| "primitive _ = True"

definition same_key :: "jsval \<Rightarrow> jsval \<Rightarrow> bool" where
  "same_key a b = (primitive a \<and> a = b)"

fun Map_get :: "tracker \<Rightarrow> jsval \<Rightarrow> call_record option" where
  "Map_get [] k = None"
| "Map_get ((k', v) # m) k = (if same_key k k' then Some v else Map_get m k)"

fun Map_has :: "tracker \<Rightarrow> jsval \<Rightarrow> bool" where
  "Map_has [] k = False"
| "Map_has ((k', v) # m) k = (same_key k k' \<or> Map_has m k)"

fun Map_replace :: "tracker \<Rightarrow> jsval \<Rightarrow> call_record \<Rightarrow> tracker" where
  "Map_replace [] k v = []"
| "Map_replace ((k', v') # m) k v =
     (if same_key k k' then (k', v) # m else (k', v') # Map_replace m k v)"

definition Map_set :: "tracker \<Rightarrow> jsval \<Rightarrow> call_record \<Rightarrow> tracker" where
  "Map_set m k v = (if Map_has m k then Map_replace m k v else m @ [(k, v)])"

fun Map_delete :: "tracker \<Rightarrow> jsval \<Rightarrow> tracker" where
  "Map_delete [] k = []"
| "Map_delete ((k', v) # m) k = (if same_key k k' then m else (k', v) # Map_delete m k)"

definition Map_size :: "tracker \<Rightarrow> nat" where
  "Map_size m = length m"

definition onCallStarted :: "jsval \<Rightarrow> jsval \<Rightarrow> jsval \<Rightarrow> int \<Rightarrow> tracker \<Rightarrow> tracker" where
  \<comment> \<open>server.js, lines 146 to 150\<close>
  "onCallStarted callId providerUserId dir t m =
     Map_set m callId \<lparr>userId = providerUserId, startTime = t, direction = dir\<rparr>"

definition onCallCompleted :: "jsval \<Rightarrow> tracker \<Rightarrow> call_record option \<times> tracker" where
  \<comment> \<open>server.js, lines 169 and 170\<close>
  "onCallCompleted callId m = (Map_get m callId, Map_delete m callId)"

datatype lookup = Undefined | Own string | Inherited string

fun truthy_user :: "lookup \<Rightarrow> bool" where
  "truthy_user Undefined = False"
| "truthy_user (Own s) = (s \<noteq> [])"
| "truthy_user (Inherited k) = True"

definition object_prototype_names :: "string list" where
  "object_prototype_names =
     [''constructor'', ''__proto__'', ''hasOwnProperty'', ''isPrototypeOf'',
      ''propertyIsEnumerable'', ''toLocaleString'', ''toString'', ''valueOf'',
      ''__defineGetter__'', ''__defineSetter__'', ''__lookupGetter__'', ''__lookupSetter__'']"

definition getTeamsUserFromOpenPhoneUser :: "jsval \<Rightarrow> error + lookup" where
  \<comment> \<open>\<^verbatim>\<open>userMapping[openPhoneUserId]\<close> on an object literal: the key is converted to a
      string, and a name that is not an own property is looked up in
      \<^verbatim>\<open>Object.prototype\<close>\<close>
  "getTeamsUserFromOpenPhoneUser openPhoneUserId =
     (case js_to_string openPhoneUserId of
        Inl err \<Rightarrow> Inl err
      | Inr key \<Rightarrow>
          Inr (if key = ''US2gwvMWKA'' then Own ''Tyler@WindsorM.com''
               else if key \<in> set object_prototype_names then Inherited key
               else Undefined))"

section \<open>Effects\<close>

datatype console_line =
    NoSignatureVerification
  | InvalidSignature
  | ReceivedEvent jsval jsval jsval
  | StatusRinging lookup jsval
  | StatusCompleted lookup jsval
  | NoTeamsUserMapping jsval
  | PresenceUpdated lookup string string
  | ErrorGettingToken
  | ErrorSettingPresence
  | ErrorHandlingWebhook error

text \<open>
  The actions of a run, in order: a console line, a call of the presence setter with
  its arguments, and the two outbound requests.  The session identifier of a presence
  request is random and is left out.
\<close>

datatype action =
    Console console_line
  | SetTeamsPresence lookup string string
  | TokenRequest
  | PresenceRequest string lookup string string

text \<open>
  What a run of the handler cannot decide by itself is an input: the configured secret,
  the clock, and the replies of the two outbound requests (\<open>Inl\<close> when axios rejects).
\<close>

record env =
  OPENPHONE_WEBHOOK_SECRET :: "string option"
  clock :: int
  token_endpoint :: "error + string"
  presence_endpoint :: "string \<Rightarrow> lookup \<Rightarrow> string \<Rightarrow> string \<Rightarrow> error + nat"

text \<open>
  A computation runs on the tracker, lists the actions it performs in order, and either
  returns a value or throws.
\<close>

type_synonym 'a proc = "tracker \<Rightarrow> (error + 'a) \<times> tracker \<times> action list"

definition ret :: "'a \<Rightarrow> 'a proc" where
  "ret x = (\<lambda>m. (Inr x, m, []))"

definition throw :: "error \<Rightarrow> 'a proc" where
  "throw e = (\<lambda>m. (Inl e, m, []))"

definition emit :: "action \<Rightarrow> unit proc" where
  "emit a = (\<lambda>m. (Inr (), m, [a]))"

definition modify :: "(tracker \<Rightarrow> 'a \<times> tracker) \<Rightarrow> 'a proc" where
  "modify f = (\<lambda>m. (Inr (fst (f m)), snd (f m), []))"

definition lift :: "error + 'a \<Rightarrow> 'a proc" where
  "lift r = (case r of Inl e \<Rightarrow> throw e | Inr x \<Rightarrow> ret x)"

definition andThen :: "'a proc \<Rightarrow> ('a \<Rightarrow> 'b proc) \<Rightarrow> 'b proc" where
  "andThen p f =
     (\<lambda>m. case p m of
             (Inl e, m', out) \<Rightarrow> (Inl e, m', out)
           | (Inr x, m', out) \<Rightarrow>
               (case f x m' of (r, m'', out') \<Rightarrow> (r, m'', out @ out')))"

section \<open>The presence setter\<close>

definition getTeamsAccessToken :: "env \<Rightarrow> string proc" where
  "getTeamsAccessToken e =
     andThen (emit TokenRequest) (\<lambda>_.
       case token_endpoint e of
         Inl err \<Rightarrow> andThen (emit (Console ErrorGettingToken)) (\<lambda>_. throw err)
       | Inr token \<Rightarrow> ret token)"

definition setTeamsPresence :: "env \<Rightarrow> lookup \<Rightarrow> string \<Rightarrow> string \<Rightarrow> bool proc" where
  "setTeamsPresence e userEmail availability activity =
     andThen (emit (SetTeamsPresence userEmail availability activity)) (\<lambda>_.
     andThen (getTeamsAccessToken e) (\<lambda>token.
     andThen (emit (PresenceRequest token userEmail availability activity)) (\<lambda>_.
       case presence_endpoint e token userEmail availability activity of
         Inl err \<Rightarrow> andThen (emit (Console ErrorSettingPresence)) (\<lambda>_. throw err)
       | Inr status \<Rightarrow>
           andThen (emit (Console (PresenceUpdated userEmail availability activity)))
             (\<lambda>_. ret (status = 200)))))"

section \<open>The webhook handler\<close>

type_synonym response = "nat \<times> string"

definition signature_check :: "env \<Rightarrow> string option \<Rightarrow> string option \<Rightarrow> bool proc" where
  \<comment> \<open>server.js, lines 125 and 126, with the console line of line 88\<close>
  "signature_check e rawPayload signature =
     (if truthy (OPENPHONE_WEBHOOK_SECRET e) then
        andThen (if \<not> truthy signature then emit (Console NoSignatureVerification) else ret ())
          (\<lambda>_. lift (verifyOpenPhoneSignature rawPayload signature (OPENPHONE_WEBHOOK_SECRET e)))
      else ret True)"

definition call_data :: "jsval \<Rightarrow> error + jsval" where
  \<comment> \<open>\<^verbatim>\<open>event.data.object\<close>\<close>
  "call_data event = (case js_get event ''data'' of Inl err \<Rightarrow> Inl err | Inr d \<Rightarrow> js_get d ''object'')"

definition on_ringing :: "env \<Rightarrow> jsval \<Rightarrow> unit proc" where
  \<comment> \<open>server.js, lines 141 to 161; the template literals of lines 158 and 160 convert
      the call identifier and the user identifier to strings\<close>
  "on_ringing e event =
     andThen (lift (call_data event)) (\<lambda>callData.
     andThen (lift (js_get callData ''userId'')) (\<lambda>openPhoneUserId.
     andThen (lift (js_get callData ''id'')) (\<lambda>callId.
     andThen (lift (js_get callData ''direction'')) (\<lambda>dir.
     andThen (modify (\<lambda>m. ((), onCallStarted callId openPhoneUserId dir (clock e) m))) (\<lambda>_.
     andThen (lift (getTeamsUserFromOpenPhoneUser openPhoneUserId)) (\<lambda>teamsUser.
       if truthy_user teamsUser then
         andThen (setTeamsPresence e teamsUser ''Busy'' ''InACall'') (\<lambda>_.
         andThen (lift (js_to_string callId)) (\<lambda>_.
           emit (Console (StatusRinging teamsUser callId))))
       else
         andThen (lift (js_to_string openPhoneUserId)) (\<lambda>_.
           emit (Console (NoTeamsUserMapping openPhoneUserId)))))))))"

definition on_completed :: "env \<Rightarrow> jsval \<Rightarrow> unit proc" where
  \<comment> \<open>server.js, lines 164 to 182, with the template literals of lines 179 and 181\<close>
  "on_completed e event =
     andThen (lift (call_data event)) (\<lambda>callData.
     andThen (lift (js_get callData ''id'')) (\<lambda>callId.
     andThen (lift (js_get callData ''userId'')) (\<lambda>openPhoneUserId.
     andThen (modify (onCallCompleted callId)) (\<lambda>activeCall.
     andThen (lift (getTeamsUserFromOpenPhoneUser openPhoneUserId)) (\<lambda>teamsUser.
       if truthy_user teamsUser then
         andThen (setTeamsPresence e teamsUser ''Available'' ''Available'') (\<lambda>_.
         andThen (lift (js_to_string callId)) (\<lambda>_.
           emit (Console (StatusCompleted teamsUser callId))))
       else
         andThen (lift (js_to_string openPhoneUserId)) (\<lambda>_.
           emit (Console (NoTeamsUserMapping openPhoneUserId))))))))"

definition dispatch :: "env \<Rightarrow> jsval \<Rightarrow> jsval \<Rightarrow> unit proc" where
  \<comment> \<open>server.js, lines 140 to 184: the branches on \<^verbatim>\<open>event.type\<close>\<close>
  "dispatch e ty event =
     (if ty = JStr ''call.ringing'' then on_ringing e event
      else if ty = JStr ''call.completed'' then on_completed e event
      else ret ())"

definition handle_event :: "env \<Rightarrow> jsval \<Rightarrow> response proc" where
  \<comment> \<open>server.js, lines 132 to 186; the template literal of line 133 converts
      \<^verbatim>\<open>event.type\<close> to a string\<close>
  "handle_event e event =
     andThen (lift (js_get event ''type'')) (\<lambda>ty.
     andThen (lift (js_to_string ty)) (\<lambda>_.
     andThen (lift (js_get event ''id'')) (\<lambda>ident.
     andThen (lift (js_get event ''data'')) (\<lambda>d.
     andThen (emit (Console (ReceivedEvent ty ident
                (js_get_opt (js_get_opt d ''object'') ''userId'')))) (\<lambda>_.
     andThen (dispatch e ty event) (\<lambda>_.
       ret (200, ''OK'')))))))"

definition webhook_try :: "env \<Rightarrow> jsval \<Rightarrow> string option \<Rightarrow> response proc" where
  \<comment> \<open>the body of the \<^verbatim>\<open>try\<close> block, lines 120 to 186\<close>
  "webhook_try e body header =
     (let rawPayload = JSON_stringify body;
          signature = header
      in andThen (signature_check e rawPayload signature) (\<lambda>ok.
           if \<not> ok then
             andThen (emit (Console InvalidSignature)) (\<lambda>_. ret (401, ''Invalid signature''))
           else handle_event e body))"

definition webhook_openphone ::
  "env \<Rightarrow> jsval \<Rightarrow> string option \<Rightarrow> tracker \<Rightarrow> response \<times> tracker \<times> action list" where
  \<comment> \<open>\<^verbatim>\<open>app.post('/webhook/openphone', ...)\<close>: \<open>body\<close> is \<^verbatim>\<open>req.body\<close> and \<open>header\<close> is
      \<^verbatim>\<open>req.headers['openphone-signature']\<close>\<close>
  "webhook_openphone e body header m =
     (case webhook_try e body header m of
        (Inr res, m', out) \<Rightarrow> (res, m', out)
      | (Inl err, m', out) \<Rightarrow>
          ((500, ''Internal server error''), m', out @ [Console (ErrorHandlingWebhook err)]))"


fun directives :: "action list \<Rightarrow> (lookup \<times> string \<times> string) list" where
  \<comment> \<open>the calls of the presence setter among the actions of a run\<close>
  "directives [] = []"
| "directives (SetTeamsPresence u a b # xs) = (u, a, b) # directives xs"
| "directives (_ # xs) = directives xs"

section \<open>Example requests\<close>

definition example_secret :: string where
  "example_secret = ''c2VjcmV0''"

definition quiet_env :: env where
  \<comment> \<open>no secret configured; both outbound requests succeed\<close>
  "quiet_env = \<lparr>OPENPHONE_WEBHOOK_SECRET = None, clock = 1000, token_endpoint = Inr ''token'',
                 presence_endpoint = (\<lambda>_ _ _ _. Inr 200)\<rparr>"

definition signed_env :: env where
  \<comment> \<open>the secret is configured; both outbound requests succeed\<close>
  "signed_env = quiet_env\<lparr>OPENPHONE_WEBHOOK_SECRET := Some example_secret\<rparr>"


definition call_event :: "string \<Rightarrow> string \<Rightarrow> string \<Rightarrow> jsval" where
  "call_event kind callId user =
     JObj [(''type'', JStr kind), (''id'', JStr ''EV1''),
           (''data'', JObj [(''object'',
              JObj [(''id'', JStr callId), (''userId'', JStr user),
                    (''direction'', JStr ''incoming'')])])]"

definition ping_body :: jsval where
  "ping_body = JObj [(''type'', JStr ''ping'')]"

definition ping_text :: string where
  \<comment> \<open>the text \<^verbatim>\<open>JSON.stringify\<close> gives for \<open>ping_body\<close>\<close>
  \<open>ping_text = ''{"type":"ping"}''\<close>

definition ping_raw :: string where
  \<comment> \<open>the same event as its sender may write it, with a space after the colon\<close>
  \<open>ping_raw = ''{"type": "ping"}''\<close>


definition ping_raw_header :: string where
  \<comment> \<open>a signature header for \<open>ping_raw\<close> at the timestamp 123\<close>
  "ping_raw_header = ''hmac;1;123;RF88z3zgPsh1oI+x6JWmhVPCUAn1M5KFLVCTmAoJZQ0=''"


section \<open>Auxiliary facts\<close>

subsection \<open>The length of a digest\<close>

lemma length_round256: "length s = 8 \<Longrightarrow> length (round256 s kw) = 8"
proof -
  assume "length s = 8"
  then obtain a b c d e f g h where "s = [a, b, c, d, e, f, g, h]"
    by (auto simp: length_Suc_conv eval_nat_numeral)
  then show ?thesis by (cases kw) (simp add: Let_def)
qed

lemma length_foldl_round256: "length s = 8 \<Longrightarrow> length (foldl round256 s kws) = 8"
  by (induction kws arbitrary: s) (simp_all add: length_round256)

lemma length_compress: "length h = 8 \<Longrightarrow> length (compress h blk) = 8"
  by (simp add: compress_def length_foldl_round256)

lemma length_foldl_compress: "length h = 8 \<Longrightarrow> length (foldl compress h blks) = 8"
  by (induction blks arbitrary: h) (simp_all add: length_compress)

lemma length_concat_const:
  "(\<And>x. x \<in> set xs \<Longrightarrow> length (f x) = n) \<Longrightarrow> length (concat (map f xs)) = n * length xs"
  by (induction xs) simp_all

lemma length_sha256: "length (sha256 m) = 32"
proof -
  have "length (foldl compress H256 (chunks 63 (sha_pad m))) = 8"
    by (rule length_foldl_compress) (simp add: H256_def)
  moreover have "\<And>w :: u32. length (be_bytes 4 (uint w)) = 4"
    by (simp add: be_bytes_def)
  ultimately show ?thesis
    unfolding sha256_def by (simp add: length_concat_const)
qed

lemma length_hmac_sha256: "length (hmac_sha256 key msg) = 32"
  by (simp add: hmac_sha256_def Let_def length_sha256)

lemma length_base64_encode: "length (base64_encode bs) = 4 * ((length bs + 2) div 3)"
proof (induction bs rule: base64_encode.induct)
  case (4 a b c bs)
  have "(length (a # b # c # bs) + 2) div 3 = Suc ((length bs + 2) div 3)"
    by simp
  with 4 show ?case by simp
qed simp_all

lemma length_computeDigest: "length (computeDigest sec d) = 44"
  by (simp add: computeDigest_def length_base64_encode length_hmac_sha256)

lemma b64_char_ascii: "i < 64 \<Longrightarrow> (of_char (b64_char i) :: nat) < 128"
proof -
  have all: "\<forall>c \<in> set base64_alphabet. (of_char c :: nat) < 128"
    by (simp add: base64_alphabet_def)
  have len: "length base64_alphabet = 64"
    by (simp add: base64_alphabet_def)
  assume "i < 64"
  with len have "base64_alphabet ! i \<in> set base64_alphabet"
    by (simp add: nth_mem)
  with all show ?thesis unfolding b64_char_def by blast
qed

lemma u8_bounds:
  fixes a b c :: u8
  shows "unat a div 4 < 64" "unat a mod 4 * 16 + unat b div 16 < 64"
    "unat a mod 16 * 4 + unat c div 64 < 64" "unat a mod 64 < 64"
    "unat a mod 4 * 16 < 64" "unat a mod 16 * 4 < 64"
proof -
  have "unat a < 256" "unat b < 256" "unat c < 256"
    using unsigned_less [of a, where ?'a = nat] unsigned_less [of b, where ?'a = nat]
      unsigned_less [of c, where ?'a = nat] by simp_all
  then show "unat a div 4 < 64" "unat a mod 4 * 16 + unat b div 16 < 64"
    "unat a mod 16 * 4 + unat c div 64 < 64" "unat a mod 64 < 64"
    "unat a mod 4 * 16 < 64" "unat a mod 16 * 4 < 64"
    by arith+
qed

lemma base64_encode_ascii: "\<forall>x \<in> set (base64_encode bs). (of_char x :: nat) < 128"
  by (induction bs rule: base64_encode.induct) (simp_all add: b64_char_ascii u8_bounds)

lemma length_utf8_ascii: "\<forall>c \<in> set s. (of_char c :: nat) < 128 \<Longrightarrow> length (utf8 s) = length s"
  by (induction s) (simp_all add: utf8_def utf8_char_def)

lemma length_utf8_computeDigest: "length (utf8 (computeDigest sec d)) = 44"
proof -
  have "\<forall>c \<in> set (computeDigest sec d). (of_char c :: nat) < 128"
    unfolding computeDigest_def by (rule base64_encode_ascii)
  then show ?thesis
    by (simp add: length_utf8_ascii length_computeDigest)
qed

lemma utf8_char_not_Nil: "utf8_char c \<noteq> []"
  by (simp add: utf8_char_def Let_def)

lemma word_of_nat_u8_inj:
  "a < 256 \<Longrightarrow> b < 256 \<Longrightarrow> (word_of_nat a :: u8) = word_of_nat b \<Longrightarrow> a = b"
proof -
  assume a: "a < 256" and b: "b < 256" and eq: "(word_of_nat a :: u8) = word_of_nat b"
  from eq have "unat (word_of_nat a :: u8) = unat (word_of_nat b :: u8)" by simp
  then have "a mod 256 = b mod 256" by (simp add: unat_of_nat)
  with a b show ?thesis by simp
qed

lemma utf8_char_inj:
  assumes "utf8_char c @ r = utf8_char c' @ r'"
  shows "c = c' \<and> r = r'"
proof -
  define n where "n = (of_char c :: nat)"
  define n' where "n' = (of_char c' :: nat)"
  have n: "n < 256" and n': "n' < 256" by (simp_all add: n_def n'_def)
  have lead: "192 + n div 64 < 256" "192 + n' div 64 < 256" "128 + n mod 64 < 256"
    "128 + n' mod 64 < 256"
    using n n' by arith+
  consider (ll) "n < 128" "n' < 128" | (lh) "n < 128" "\<not> n' < 128"
    | (hl) "\<not> n < 128" "n' < 128" | (hh) "\<not> n < 128" "\<not> n' < 128"
    by blast
  then have "n = n' \<and> r = r'"
  proof cases
    case ll
    with assms have "(word_of_nat n :: u8) = word_of_nat n'" "r = r'"
      by (simp_all add: utf8_char_def Let_def n_def n'_def)
    with n n' show ?thesis by (simp add: word_of_nat_u8_inj)
  next
    case lh
    with assms have "(word_of_nat n :: u8) = word_of_nat (192 + n' div 64)"
      by (simp add: utf8_char_def Let_def n_def n'_def)
    with n lead have "n = 192 + n' div 64" by (simp add: word_of_nat_u8_inj)
    with lh show ?thesis by simp
  next
    case hl
    with assms have "(word_of_nat (192 + n div 64) :: u8) = word_of_nat n'"
      by (simp add: utf8_char_def Let_def n_def n'_def)
    with n' lead have "192 + n div 64 = n'" by (simp add: word_of_nat_u8_inj)
    with hl show ?thesis by simp
  next
    case hh
    with assms have "(word_of_nat (192 + n div 64) :: u8) = word_of_nat (192 + n' div 64)"
      "(word_of_nat (128 + n mod 64) :: u8) = word_of_nat (128 + n' mod 64)" "r = r'"
      by (simp_all add: utf8_char_def Let_def n_def n'_def)
    with lead have "192 + n div 64 = 192 + n' div 64" "128 + n mod 64 = 128 + n' mod 64" "r = r'"
      by (simp_all add: word_of_nat_u8_inj)
    then have "n div 64 = n' div 64" "n mod 64 = n' mod 64" "r = r'" by simp_all
    then show ?thesis by (metis div_mult_mod_eq)
  qed
  then show ?thesis by (simp add: n_def n'_def)
qed

lemma utf8_inj: "utf8 a = utf8 b \<Longrightarrow> a = b"
proof (induction a arbitrary: b)
  case Nil
  then show ?case by (cases b) (simp_all add: utf8_def utf8_char_not_Nil)
next
  case (Cons c cs)
  show ?case
  proof (cases b)
    case Nil
    with Cons.prems show ?thesis by (simp add: utf8_def utf8_char_not_Nil)
  next
    case (Cons c' cs')
    with Cons.prems have "utf8_char c @ utf8 cs = utf8_char c' @ utf8 cs'"
      by (simp add: utf8_def)
    then have "c = c'" "utf8 cs = utf8 cs'" using utf8_char_inj by blast+
    with Cons.IH Cons show ?thesis by simp
  qed
qed

subsection \<open>The verifier\<close>

lemma computeDigest_ping_text:
  "computeDigest example_secret (''123.'' @ ping_text) =
     ''NutmVLn581wh6bG/u3w4tAZDPgmJPyosG7gLGYNB9VU=''"
  by code_simp

lemma computeDigest_ping_raw:
  "computeDigest example_secret (''123.'' @ ping_raw) =
     ''RF88z3zgPsh1oI+x6JWmhVPCUAn1M5KFLVCTmAoJZQ0=''"
  by code_simp

lemma verify_fields:
  assumes "sig \<noteq> []" "sec \<noteq> []" "4 \<le> length (split_on CHR '';'' sig)"
  shows "verifyOpenPhoneSignature payload (Some sig) (Some sec) =
     timingSafeEqual (utf8 (split_on CHR '';'' sig ! 3))
       (utf8 (computeDigest sec (split_on CHR '';'' sig ! 2 @ ''.'' @ js_string payload)))"
  using assms by (simp add: verifyOpenPhoneSignature_def Let_def)

lemma split_on_two_fields: "2 \<le> length (split_on sep s) \<Longrightarrow> s \<noteq> []"
  by (cases s) auto

lemma verify_length_mismatch:
  assumes "sec \<noteq> []" "4 \<le> length (split_on CHR '';'' sig)"
    "length (utf8 (split_on CHR '';'' sig ! 3)) \<noteq> 44"
  shows "verifyOpenPhoneSignature payload (Some sig) (Some sec) = Inl RangeError"
proof -
  from assms(2) have "sig \<noteq> []" by (intro split_on_two_fields [of "CHR '';''"]) simp
  with assms show ?thesis
    by (simp add: verify_fields timingSafeEqual_def length_utf8_computeDigest)
qed

lemma verify_same_length:
  assumes "sec \<noteq> []" "4 \<le> length (split_on CHR '';'' sig)"
    "length (utf8 (split_on CHR '';'' sig ! 3)) = 44"
  shows "verifyOpenPhoneSignature payload (Some sig) (Some sec) =
     Inr (split_on CHR '';'' sig ! 3 =
          computeDigest sec (split_on CHR '';'' sig ! 2 @ ''.'' @ js_string payload))"
proof -
  from assms(2) have "sig \<noteq> []" by (intro split_on_two_fields [of "CHR '';''"]) simp
  with assms show ?thesis
    by (auto simp add: verify_fields timingSafeEqual_def length_utf8_computeDigest dest: utf8_inj)
qed

subsection \<open>The tracker\<close>

lemma Map_get_replace: "Map_has m k \<Longrightarrow> Map_get (Map_replace m k v) k = Some v"
  by (induction m) auto

lemma Map_delete_replace: "Map_has m k \<Longrightarrow> Map_delete (Map_replace m k v) k = Map_delete m k"
  by (induction m) auto

lemma Map_get_append:
  "primitive k \<Longrightarrow> \<not> Map_has m k \<Longrightarrow> Map_get (m @ [(k, v)]) k = Some v"
  by (induction m) (auto simp: same_key_def)

lemma Map_delete_append:
  "primitive k \<Longrightarrow> \<not> Map_has m k \<Longrightarrow> Map_delete (m @ [(k, v)]) k = m"
  by (induction m) (auto simp: same_key_def)

lemma Map_absent: "\<not> Map_has m k \<Longrightarrow> Map_get m k = None \<and> Map_delete m k = m"
  by (induction m) auto

lemma Map_get_set: "primitive k \<Longrightarrow> Map_get (Map_set m k v) k = Some v"
  by (simp add: Map_set_def Map_get_replace Map_get_append)

lemma Map_delete_set: "primitive k \<Longrightarrow> Map_delete (Map_set m k v) k = Map_delete m k"
  by (simp add: Map_set_def Map_delete_replace Map_delete_append Map_absent)

subsection \<open>Computations\<close>

lemmas proc_defs = andThen_def ret_def throw_def emit_def modify_def lift_def

lemma andThen_ret [simp]: "andThen (ret x) f = f x"
  by (auto simp: proc_defs split: prod.splits)

lemma andThen_throw [simp]: "andThen (throw err) f = throw err"
  by (auto simp: proc_defs)

lemma lift_Inr [simp]: "lift (Inr x) = ret x"
  by (simp add: lift_def)

lemma lift_Inl [simp]: "lift (Inl err) = throw err"
  by (simp add: lift_def)

lemma andThen_emit:
  "andThen (emit a) f m = (case f () m of (r, m', out) \<Rightarrow> (r, m', a # out))"
  by (simp add: proc_defs)

lemma andThen_modify [simp]: "andThen (modify g) f m = f (fst (g m)) (snd (g m))"
  by (simp add: proc_defs split: prod.splits)

lemma ret_apply: "ret x m = (Inr x, m, [])"
  by (simp add: ret_def)

lemma throw_apply: "throw err m = (Inl err, m, [])"
  by (simp add: throw_def)



lemma directives_append [simp]: "directives (xs @ ys) = directives xs @ directives ys"
  by (induction xs rule: directives.induct) simp_all




























section \<open>The properties of the specification\<close>

subsection \<open>Facts about the example requests\<close>

lemma JSON_stringify_ping: "JSON_stringify ping_body = Some ping_text"
  by (simp add: ping_body_def ping_text_def quote_def quote_char_def)

lemma express_json_ping_raw: "express_json ping_raw = Some ping_body"
  by code_simp


lemma ping_raw_header_fields:
  "split_on CHR '';'' ping_raw_header =
     [''hmac'', ''1'', ''123'', ''RF88z3zgPsh1oI+x6JWmhVPCUAn1M5KFLVCTmAoJZQ0='']"
  by (simp add: ping_raw_header_def)


lemma verify_ping_raw_header:
  "verifyOpenPhoneSignature (Some ping_text) (Some ping_raw_header) (Some example_secret) = Inr False"
proof -
  have "verifyOpenPhoneSignature (Some ping_text) (Some ping_raw_header) (Some example_secret) =
      Inr (split_on CHR '';'' ping_raw_header ! 3 =
           computeDigest example_secret
             (split_on CHR '';'' ping_raw_header ! 2 @ ''.'' @ js_string (Some ping_text)))"
    by (rule verify_same_length)
      (simp_all add: ping_raw_header_fields example_secret_def utf8_def utf8_char_def)
  then show ?thesis
    using computeDigest_ping_text by (simp add: ping_raw_header_fields)
qed


subsection \<open>C1: a request without a signature header\<close>

text \<open>
  C1 says that the verifier, given a non-empty secret and no signature header, returns
  false.  The code returns true: line 87 tests \<^verbatim>\<open>!signature || !secret\<close>, so a
  missing header takes the branch that the comment of line 89 and the console line of
  line 88 reserve for a missing secret.  The theorem states what the code computes, for
  every payload and every secret.
\<close>

theorem verify_accepts_missing_signature:
  "verifyOpenPhoneSignature payload None (Some secret) = Inr True"
  by (simp add: verifyOpenPhoneSignature_def)

theorem verify_accepts_missing_signature_witness:
  "verifyOpenPhoneSignature (Some ''{}'') None (Some example_secret) = Inr True"
  using verify_accepts_missing_signature [of "Some ''{}''" example_secret] by simp

text \<open>
  With the secret configured, a ringing event that carries no signature header is
  processed and sets the presence of the mapped user.
\<close>

lemma unsigned_request_is_processed:
  "fst (webhook_openphone signed_env (call_event ''call.ringing'' ''c1'' ''US2gwvMWKA'') None []) =
     (200, ''OK'') \<and>
   directives (snd (snd (webhook_openphone signed_env
      (call_event ''call.ringing'' ''c1'' ''US2gwvMWKA'') None []))) =
     [(Own ''Tyler@WindsorM.com'', ''Busy'', ''InACall'')]"
  by code_simp

subsection \<open>C2: a failing downstream request\<close>




subsection \<open>C3: a digest of another length\<close>

text \<open>
  C3 says that a provided digest whose byte length differs from that of the computed
  digest makes the verifier return false without raising.  The code hands both buffers
  to \<^verbatim>\<open>crypto.timingSafeEqual\<close> (lines 111 to 114) without comparing their lengths
  first, and that function throws a RangeError on buffers of different lengths.  The
  theorem states what the code does: for every payload, every non-empty secret and
  every header of at least four fields whose digest field has another byte length than
  the computed digest, the verifier throws.
\<close>

theorem verify_throws_on_length_mismatch:
  assumes "sec \<noteq> []"
    and "fs = split_on CHR '';'' sig"
    and "4 \<le> length fs"
    and "length (utf8 (fs ! 3)) \<noteq>
         length (utf8 (computeDigest sec (fs ! 2 @ ''.'' @ js_string payload)))"
  shows "verifyOpenPhoneSignature payload (Some sig) (Some sec) = Inl RangeError"
  using assms verify_length_mismatch [of sec sig payload]
  by (simp add: length_utf8_computeDigest)

text \<open>
  The computed digest always has 44 bytes.  For the three-byte digest \<open>abc\<close> the
  verifier throws, and the handler answers 500 where an invalid signature is answered
  401.
\<close>

theorem verify_throws_on_length_mismatch_witness:
  "example_secret \<noteq> [] \<and> 4 \<le> length (split_on CHR '';'' ''hmac;1;123;abc'') \<and>
   length (utf8 (split_on CHR '';'' ''hmac;1;123;abc'' ! 3)) = 3 \<and>
   length (utf8 (computeDigest example_secret
     (split_on CHR '';'' ''hmac;1;123;abc'' ! 2 @ ''.'' @ js_string (Some ''{}'')))) = 44 \<and>
   verifyOpenPhoneSignature (Some ''{}'') (Some ''hmac;1;123;abc'') (Some example_secret) =
     Inl RangeError \<and>
   webhook_openphone signed_env (JObj []) (Some ''hmac;1;123;abc'') [] =
     ((500, ''Internal server error''), [], [Console (ErrorHandlingWebhook RangeError)])"
proof -
  have s: "example_secret \<noteq> []" by (simp add: example_secret_def)
  have l: "4 \<le> length (split_on CHR '';'' ''hmac;1;123;abc'')" by simp
  have p: "length (utf8 (split_on CHR '';'' ''hmac;1;123;abc'' ! 3)) = 3"
    by (simp add: utf8_def utf8_char_def)
  have c: "length (utf8 (computeDigest example_secret
      (split_on CHR '';'' ''hmac;1;123;abc'' ! 2 @ ''.'' @ js_string (Some ''{}'')))) = 44"
    by (rule length_utf8_computeDigest)
  from p c have n: "length (utf8 (split_on CHR '';'' ''hmac;1;123;abc'' ! 3)) \<noteq>
      length (utf8 (computeDigest example_secret
        (split_on CHR '';'' ''hmac;1;123;abc'' ! 2 @ ''.'' @ js_string (Some ''{}''))))"
    by simp
  from verify_throws_on_length_mismatch [OF s refl l n]
  have v: "verifyOpenPhoneSignature (Some ''{}'') (Some ''hmac;1;123;abc'') (Some example_secret) =
      Inl RangeError" .
  then have "webhook_openphone signed_env (JObj []) (Some ''hmac;1;123;abc'') [] =
      ((500, ''Internal server error''), [], [Console (ErrorHandlingWebhook RangeError)])"
    by (simp add: webhook_openphone_def webhook_try_def signature_check_def signed_env_def
        quiet_env_def example_secret_def throw_apply)
  with s l p c v show ?thesis by blast
qed

subsection \<open>C4: the text that is verified\<close>

text \<open>
  C4 says that the signature is verified over the request body exactly as received.
  The handler never sees that text: line 121 computes \<^verbatim>\<open>JSON.stringify(req.body)\<close>
  from the parsed body, under the comment "Get the raw payload for signature
  verification".  The body \<open>ping_raw\<close>, which has a space after the colon, is parsed
  to \<open>ping_body\<close> and serialised again without the space; the header
  \<open>ping_raw_header\<close> carries the HMAC-SHA256 of the timestamp, a dot and the text as
  received, and the handler answers 401.
\<close>

theorem handler_verifies_reserialised_body:
  "express_json ping_raw = Some ping_body \<and>
   JSON_stringify ping_body = Some ping_text \<and> ping_text \<noteq> ping_raw \<and>
   split_on CHR '';'' ping_raw_header ! 3 = computeDigest example_secret (''123.'' @ ping_raw) \<and>
   webhook_openphone signed_env ping_body (Some ping_raw_header) [] =
     ((401, ''Invalid signature''), [], [Console InvalidSignature])"
proof -
  have "ping_text \<noteq> ping_raw"
    by (simp add: ping_text_def ping_raw_def)
  moreover have "split_on CHR '';'' ping_raw_header ! 3 =
      computeDigest example_secret (''123.'' @ ping_raw)"
    using computeDigest_ping_raw by (simp add: ping_raw_header_fields)
  moreover have "webhook_openphone signed_env ping_body (Some ping_raw_header) [] =
      ((401, ''Invalid signature''), [], [Console InvalidSignature])"
    using verify_ping_raw_header
    by (simp add: webhook_openphone_def webhook_try_def signature_check_def signed_env_def
        quiet_env_def JSON_stringify_ping andThen_emit ret_apply example_secret_def
        ping_raw_header_def)
  ultimately show ?thesis
    using express_json_ping_raw JSON_stringify_ping by simp
qed

theorem handler_verifies_reserialised_body_witness:
  "map_option JSON_stringify (express_json ping_raw) = Some (Some ping_text) \<and>
   fst (webhook_openphone signed_env ping_body (Some ping_raw_header) []) =
     (401, ''Invalid signature'')"
  using handler_verifies_reserialised_body by simp

subsection \<open>C5: events that lack fields\<close>




subsection \<open>C6: a completed event without a tracked call\<close>



subsection \<open>C7: from the kind of an event to the directive\<close>



subsection \<open>C8: the tracker\<close>

text \<open>
  C8: for every call identifier that is a primitive value (every string is one), every
  provider user and every direction, starting a call and completing it at once returns
  the record that the start created and removes it, so that a tracker that was empty is
  empty again, with size 0; and completing a call that the tracker does not hold returns
  nothing, changes nothing and raises no error.
\<close>

theorem tracker_round_trip:
  assumes "primitive callId"
  shows "onCallCompleted callId (onCallStarted callId providerUserId dir t m) =
           (Some \<lparr>userId = providerUserId, startTime = t, direction = dir\<rparr>, Map_delete m callId) \<and>
         Map_size (snd (onCallCompleted callId (onCallStarted callId providerUserId dir t []))) = 0 \<and>
         (\<not> Map_has m callId \<longrightarrow> onCallCompleted callId m = (None, m))"
  using assms
  by (simp add: onCallCompleted_def onCallStarted_def Map_get_set Map_delete_set Map_absent
      Map_size_def)

theorem tracker_round_trip_witness:
  "primitive (JStr ''c1'') \<and>
   onCallCompleted (JStr ''c1'') (onCallStarted (JStr ''c1'') (JStr ''U1'') (JStr ''incoming'') 7 []) =
     (Some \<lparr>userId = JStr ''U1'', startTime = 7, direction = JStr ''incoming''\<rparr>, []) \<and>
   \<not> Map_has [] (JStr ''c2'') \<and> onCallCompleted (JStr ''c2'') [] = (None, [])"
  using tracker_round_trip [of "JStr ''c1''" "JStr ''U1''" "JStr ''incoming''" 7 "[]"]
    tracker_round_trip [of "JStr ''c2''" "JStr ''U1''" "JStr ''incoming''" 7 "[]"]
  by simp

subsection \<open>C9: what the digest covers\<close>




subsection \<open>C10: no secret\<close>

text \<open>
  C10: when no secret is configured, that is, when the secret is undefined or the empty
  string, the verifier returns true for every payload and every signature header, the
  absent header included.
\<close>

theorem verify_disabled_without_secret:
  "verifyOpenPhoneSignature payload signature None = Inr True \<and>
   verifyOpenPhoneSignature payload signature (Some []) = Inr True"
  by (simp add: verifyOpenPhoneSignature_def split: option.splits)

theorem verify_disabled_without_secret_witness:
  "verifyOpenPhoneSignature (Some ping_text) None None = Inr True \<and>
   verifyOpenPhoneSignature (Some ping_text) (Some ''hmac;1;123;abc'') (Some []) = Inr True"
  using verify_disabled_without_secret [of "Some ping_text" None]
    verify_disabled_without_secret [of "Some ping_text" "Some ''hmac;1;123;abc''"]
  by simp

end
